theory Spec2Isabelle
  imports Main
begin

section \<open>Data model\<close>

text \<open>
  A message of the conversation is the dictionary
  \<^verbatim>\<open>{"role": r, "content": c}\<close>; both keys are always present in the
  dictionaries the client builds and in the ones the type hint
  \<^verbatim>\<open>list[dict[str, str]]\<close> documents. Roles are plain strings, compared
  with \<^verbatim>\<open>==\<close> by the code.
\<close>

record turn =
  role :: string
  content :: string

definition system_turn :: "string \<Rightarrow> turn" where
  "system_turn c = \<lparr>role = ''system'', content = c\<rparr>"

definition user_turn :: "string \<Rightarrow> turn" where
  "user_turn c = \<lparr>role = ''user'', content = c\<rparr>"

definition assistant_turn :: "string \<Rightarrow> turn" where
  "assistant_turn c = \<lparr>role = ''assistant'', content = c\<rparr>"

section \<open>gui.py\<close>

text \<open>
  \<^verbatim>\<open>_memory_to_chatbot(history)\<close>: the \<^verbatim>\<open>for\<close> loop with its two
  local variables \<^verbatim>\<open>pairs\<close> and \<^verbatim>\<open>current_user\<close> (\<^verbatim>\<open>None\<close> is
  \<open>None\<close>).
\<close>

fun memory_to_chatbot_loop ::
  "turn list \<Rightarrow> (string \<times> string) list \<Rightarrow> string option \<Rightarrow> (string \<times> string) list" where
  "memory_to_chatbot_loop [] pairs current_user = pairs"
| "memory_to_chatbot_loop (msg # history) pairs current_user =
     (if role msg = ''user'' then
        memory_to_chatbot_loop history pairs (Some (content msg))
      else if role msg = ''assistant'' then
        (case current_user of
           Some u \<Rightarrow> memory_to_chatbot_loop history (pairs @ [(u, content msg)]) None
         | None \<Rightarrow> memory_to_chatbot_loop history pairs current_user)
      else memory_to_chatbot_loop history pairs current_user)"

definition memory_to_chatbot :: "turn list \<Rightarrow> (string \<times> string) list" where
  "memory_to_chatbot history = memory_to_chatbot_loop history [] None"

text \<open>
  The pairing as the specification words it, for comparison with the code: every
  assistant turn takes the most recent preceding user turn that is still unpaired. The
  unpaired user turns seen so far are kept most recent first.
\<close>

fun spec_pairs_loop :: "turn list \<Rightarrow> string list \<Rightarrow> (string \<times> string) list" where
  "spec_pairs_loop [] unpaired = []"
| "spec_pairs_loop (msg # history) unpaired =
     (if role msg = ''user'' then spec_pairs_loop history (content msg # unpaired)
      else if role msg = ''assistant'' then
        (case unpaired of
           u # rest \<Rightarrow> (u, content msg) # spec_pairs_loop history rest
         | [] \<Rightarrow> spec_pairs_loop history [])
      else spec_pairs_loop history unpaired)"

definition spec_pairs :: "turn list \<Rightarrow> (string \<times> string) list" where
  "spec_pairs history = spec_pairs_loop history []"

text \<open>
  What the code computes, said without the loop: drop every turn that is neither a user
  nor an assistant turn, then keep each user turn that is directly followed by an
  assistant turn, together with that assistant turn.
\<close>

definition conversational :: "turn list \<Rightarrow> turn list" where
  "conversational history =
     filter (\<lambda>m. role m = ''user'' \<or> role m = ''assistant'') history"

fun adjacent_pairs :: "turn list \<Rightarrow> (string \<times> string) list" where
  "adjacent_pairs (x # y # ms) =
     (if role x = ''user'' \<and> role y = ''assistant''
      then (content x, content y) # adjacent_pairs (y # ms)
      else adjacent_pairs (y # ms))"
| "adjacent_pairs ms = []"


section \<open>client.py: the state the session lives in\<close>

text \<open>
  Exceptions are values. \<open>BackendFailure\<close> stands for whatever the backend raises;
  \<open>KeyError\<close> and \<open>IndexError\<close> are Python's own, raised by \<^verbatim>\<open>d[k]\<close> on a
  missing key and by \<^verbatim>\<open>xs[i] = v\<close> out of range.
\<close>

datatype error = BackendFailure string | KeyError string | IndexError

text \<open>
  One element of a backend stream. The code reads \<^verbatim>\<open>chunk["choices"][0]\<close>, then
  its \<^verbatim>\<open>"delta"\<close> entry, then the \<^verbatim>\<open>"content"\<close> entry of that. Either
  entry can be absent, which is \<open>None\<close> here.
\<close>

datatype delta = Delta (delta_content: "string option")

datatype chunk = Chunk (chunk_delta: "delta option")

text \<open>
  The backend \<^verbatim>\<open>llama_cpp.Llama\<close> is not part of the repository, so it is a
  parameter. \<open>create_chat_completion\<close> is the blocking call: it raises, or returns a
  response whose \<^verbatim>\<open>["choices"][0]["message"]["content"]\<close> is the given text.
  \<open>create_chat_completion_stream\<close> is the call with \<^verbatim>\<open>stream=True\<close>: it raises,
  or returns an iterator that delivers the given chunks and then either stops or raises.
\<close>

record llama =
  create_chat_completion :: "turn list \<Rightarrow> error + string"
  create_chat_completion_stream :: "turn list \<Rightarrow> error + (chunk list \<times> error option)"

text \<open>
  Python lists are objects with identity: \<^verbatim>\<open>self.memory\<close> holds a reference, and
  so does every caller that was handed the list. \<open>heap\<close> maps the address of a list
  object to its elements, \<open>fresh\<close> is the next unused address. \<open>memory\<close> and
  \<open>system_prompt\<close> are the two attributes of the \<^verbatim>\<open>LLM\<close> object. \<open>calls\<close> records,
  in order, the message list and the \<^verbatim>\<open>stream\<close> flag of every call made to the
  backend, and \<open>stdout\<close> what \<^verbatim>\<open>print\<close> has written.
\<close>

type_synonym addr = nat

record world =
  heap :: "addr \<Rightarrow> turn list"
  fresh :: addr
  memory :: addr
  system_prompt :: string
  calls :: "(turn list \<times> bool) list"
  stdout :: string

definition list_new :: "turn list \<Rightarrow> world \<Rightarrow> addr \<times> world" where
  "list_new xs w = (fresh w, w\<lparr>heap := (heap w)(fresh w := xs), fresh := Suc (fresh w)\<rparr>)"

definition list_append :: "addr \<Rightarrow> turn \<Rightarrow> world \<Rightarrow> world" where
  "list_append a x w = w\<lparr>heap := (heap w)(a := heap w a @ [x])\<rparr>"

definition list_setitem :: "addr \<Rightarrow> nat \<Rightarrow> turn \<Rightarrow> world \<Rightarrow> (error + unit) \<times> world" where
  "list_setitem a i x w =
     (if i < length (heap w a)
      then (Inr (), w\<lparr>heap := (heap w)(a := (heap w a)[i := x])\<rparr>)
      else (Inl IndexError, w))"

definition print_end :: "string \<Rightarrow> world \<Rightarrow> world" where
  "print_end s w = w\<lparr>stdout := stdout w @ s\<rparr>"

definition print_newline :: "world \<Rightarrow> world" where
  "print_newline w = w\<lparr>stdout := stdout w @ [CHR 0x0A]\<rparr>"

definition log_call :: "turn list \<Rightarrow> bool \<Rightarrow> world \<Rightarrow> world" where
  "log_call messages stream w = w\<lparr>calls := calls w @ [(messages, stream)]\<rparr>"

section \<open>client.py: class LLM\<close>

text \<open>\<^verbatim>\<open>LLM.__init__\<close>, in a world with no other objects.\<close>

definition init :: "string \<Rightarrow> world" where
  "init sp =
     \<lparr>heap = (\<lambda>_. [])(0 := [system_turn sp]), fresh = 1, memory = 0,
      system_prompt = sp, calls = [], stdout = []\<rparr>"

definition chat :: "llama \<Rightarrow> string \<Rightarrow> world \<Rightarrow> (error + string) \<times> world" where
  "chat llm p w =
     (let w1 = list_append (memory w) (user_turn p) w;
          messages = heap w1 (memory w1);
          w2 = log_call messages False w1
      in case create_chat_completion llm messages of
           Inl e \<Rightarrow> (Inl e, w2)
         | Inr message \<Rightarrow> (Inr message, list_append (memory w2) (assistant_turn message) w2))"

text \<open>
  The \<^verbatim>\<open>temp_memory\<close> of \<^verbatim>\<open>prompt\<close> and \<^verbatim>\<open>prompt_stream\<close>: a copy of the
  list behind \<^verbatim>\<open>self.memory\<close> with the user turn appended, or the two-element list
  built from \<^verbatim>\<open>self.system_prompt\<close>. It is a local list nothing else refers to, so
  it is a value here.
\<close>

definition temp_memory :: "bool \<Rightarrow> string \<Rightarrow> world \<Rightarrow> turn list" where
  "temp_memory use_memory p w =
     (if use_memory then heap w (memory w) @ [user_turn p]
      else [system_turn (system_prompt w), user_turn p])"

definition prompt :: "llama \<Rightarrow> string \<Rightarrow> bool \<Rightarrow> world \<Rightarrow> (error + string) \<times> world" where
  "prompt llm p use_memory w =
     (let messages = temp_memory use_memory p w;
          w1 = log_call messages False w
      in case create_chat_completion llm messages of
           Inl e \<Rightarrow> (Inl e, w1)
         | Inr message \<Rightarrow> (Inr message, w1))"

definition clear_memory :: "world \<Rightarrow> world" where
  "clear_memory w =
     (let (a, w1) = list_new [system_turn (system_prompt w)] w in w1\<lparr>memory := a\<rparr>)"

definition set_memory :: "addr \<Rightarrow> world \<Rightarrow> world" where
  "set_memory a w = w\<lparr>memory := a\<rparr>"

definition get_memory :: "world \<Rightarrow> addr" where
  "get_memory w = memory w"

definition modify_system_prompt :: "string \<Rightarrow> world \<Rightarrow> (error + unit) \<times> world" where
  "modify_system_prompt sp w = list_setitem (memory w) 0 (system_turn sp) w"

section \<open>client.py: the streaming generators\<close>

text \<open>
  Calling a Python generator function runs none of its body: the body runs when the
  generator object is resumed by \<^verbatim>\<open>next\<close>, up to the next \<^verbatim>\<open>yield\<close>, the
  end of the body (\<^verbatim>\<open>StopIteration\<close>) or an exception. A generator object is
  therefore a program point with the values of its local variables, and \<^verbatim>\<open>next\<close> is
  a function of that object and the world. The variables \<^verbatim>\<open>self\<close>, \<^verbatim>\<open>prompt\<close>,
  \<^verbatim>\<open>print_stream\<close> and \<^verbatim>\<open>use_memory\<close> the body closes over are arguments of
  the model's \<open>next\<close> functions.
\<close>

datatype 'a step = Yield 'a | StopIteration | Raise error

text \<open>
  The generator of \<^verbatim>\<open>chat_stream\<close>: not started; suspended at the \<^verbatim>\<open>yield\<close>
  with the rest of the backend iterator (the chunks it will still deliver and the
  exception, if any, it raises after them) and \<^verbatim>\<open>full_message\<close>; or finished.
\<close>

datatype chat_gen =
    ChatCreated
  | ChatSuspended "chunk list" "error option" string
  | ChatFinished

text \<open>The \<^verbatim>\<open>for chunk in stream\<close> loop of \<^verbatim>\<open>chat_stream\<close> and what follows it.\<close>

fun chat_resume ::
  "bool \<Rightarrow> chunk list \<Rightarrow> error option \<Rightarrow> string \<Rightarrow> world \<Rightarrow> string step \<times> chat_gen \<times> world" where
  "chat_resume print_stream [] after full_message w =
     (case after of
        Some e \<Rightarrow> (Raise e, ChatFinished, w)
      | None \<Rightarrow>
          (let w1 = (if print_stream then print_newline w else w)
           in (StopIteration, ChatFinished,
               list_append (memory w1) (assistant_turn full_message) w1)))"
| "chat_resume print_stream (c # stream) after full_message w =
     (case chunk_delta c of
        None \<Rightarrow> (Raise (KeyError ''delta''), ChatFinished, w)
      | Some d \<Rightarrow>
          (let token = (case delta_content d of None \<Rightarrow> [] | Some t \<Rightarrow> t)
           in if token \<noteq> [] then
                (Yield token, ChatSuspended stream after (full_message @ token),
                 if print_stream then print_end token w else w)
              else chat_resume print_stream stream after full_message w))"

definition chat_next ::
  "llama \<Rightarrow> string \<Rightarrow> bool \<Rightarrow> chat_gen \<Rightarrow> world \<Rightarrow> string step \<times> chat_gen \<times> world" where
  "chat_next llm p print_stream g w =
     (case g of
        ChatCreated \<Rightarrow>
          (let w1 = list_append (memory w) (user_turn p) w;
               messages = heap w1 (memory w1);
               w2 = log_call messages True w1
           in case create_chat_completion_stream llm messages of
                Inl e \<Rightarrow> (Raise e, ChatFinished, w2)
              | Inr (stream, after) \<Rightarrow> chat_resume print_stream stream after [] w2)
      | ChatSuspended stream after full_message \<Rightarrow>
          chat_resume print_stream stream after full_message w
      | ChatFinished \<Rightarrow> (StopIteration, ChatFinished, w))"

text \<open>
  \<^verbatim>\<open>for _ in gen: pass\<close>: resume the generator until it stops or raises. The result
  is the tokens it yielded, the exception that ended the loop (if any), the generator
  and the world. Each \<^verbatim>\<open>yield\<close> leaves fewer chunks in the backend iterator, and a
  generator that has been started is never again unstarted.
\<close>

fun chat_gen_rank :: "chat_gen \<Rightarrow> nat" where
  "chat_gen_rank ChatCreated = 1"
| "chat_gen_rank _ = 0"

fun chat_gen_left :: "chat_gen \<Rightarrow> nat" where
  "chat_gen_left (ChatSuspended stream _ _) = length stream"
| "chat_gen_left _ = 0"

lemma chat_resume_Yield:
  "chat_resume ps stream after full w = (Yield t, g', w') \<Longrightarrow>
   chat_gen_rank g' = 0 \<and> chat_gen_left g' < length stream"
  by (induction stream) (auto simp: Let_def split: option.splits if_splits)

lemma chat_next_Yield:
  "chat_next llm p ps g w = (Yield t, g', w') \<Longrightarrow>
   chat_gen_rank g' < chat_gen_rank g \<or>
   (chat_gen_rank g' = chat_gen_rank g \<and> chat_gen_left g' < chat_gen_left g)"
  by (cases g)
     (auto simp: chat_next_def Let_def split: sum.splits
           dest: chat_resume_Yield)

function chat_drain ::
  "llama \<Rightarrow> string \<Rightarrow> bool \<Rightarrow> chat_gen \<Rightarrow> world \<Rightarrow>
   string list \<times> error option \<times> chat_gen \<times> world" where
  "chat_drain llm p print_stream g w =
     (case chat_next llm p print_stream g w of
        (Yield token, g', w') \<Rightarrow>
          (case chat_drain llm p print_stream g' w' of
             (tokens, r) \<Rightarrow> (token # tokens, r))
      | (StopIteration, g', w') \<Rightarrow> ([], None, g', w')
      | (Raise e, g', w') \<Rightarrow> ([], Some e, g', w'))"
  by pat_completeness auto
termination
  apply (relation "measures [\<lambda>(llm, p, ps, g, w). chat_gen_rank g,
                             \<lambda>(llm, p, ps, g, w). chat_gen_left g]")
   apply simp
  apply (auto dest: chat_next_Yield chat_next_Yield[OF sym])
  done

text \<open>
  \<^verbatim>\<open>LLM.chat_stream\<close>: creates the generator; with \<^verbatim>\<open>print_stream\<close> it runs it
  to its end and returns \<^verbatim>\<open>None\<close>, otherwise it returns the generator, not started.
\<close>

definition chat_stream ::
  "llama \<Rightarrow> string \<Rightarrow> bool \<Rightarrow> world \<Rightarrow> (error + chat_gen option) \<times> world" where
  "chat_stream llm p print_stream w =
     (let gen = ChatCreated
      in if print_stream then
           (case chat_drain llm p print_stream gen w of
              (_, None, _, w') \<Rightarrow> (Inr None, w')
            | (_, Some e, _, w') \<Rightarrow> (Inl e, w'))
         else (Inr (Some gen), w))"

text \<open>The generator of \<^verbatim>\<open>prompt_stream\<close>; it has no \<^verbatim>\<open>full_message\<close>.\<close>

datatype prompt_gen =
    PromptCreated
  | PromptSuspended "chunk list" "error option"
  | PromptFinished

fun prompt_resume ::
  "bool \<Rightarrow> chunk list \<Rightarrow> error option \<Rightarrow> world \<Rightarrow> string step \<times> prompt_gen \<times> world" where
  "prompt_resume print_stream [] after w =
     (case after of
        Some e \<Rightarrow> (Raise e, PromptFinished, w)
      | None \<Rightarrow> (StopIteration, PromptFinished, if print_stream then print_newline w else w))"
| "prompt_resume print_stream (c # stream) after w =
     (let d = (case chunk_delta c of None \<Rightarrow> Delta None | Some d \<Rightarrow> d);
          token = (case delta_content d of None \<Rightarrow> [] | Some t \<Rightarrow> t)
      in if token \<noteq> [] then
           (Yield token, PromptSuspended stream after,
            if print_stream then print_end token w else w)
         else prompt_resume print_stream stream after w)"

definition prompt_next ::
  "llama \<Rightarrow> string \<Rightarrow> bool \<Rightarrow> bool \<Rightarrow> prompt_gen \<Rightarrow> world \<Rightarrow>
   string step \<times> prompt_gen \<times> world" where
  "prompt_next llm p print_stream use_memory g w =
     (case g of
        PromptCreated \<Rightarrow>
          (let messages = temp_memory use_memory p w;
               w1 = log_call messages True w
           in case create_chat_completion_stream llm messages of
                Inl e \<Rightarrow> (Raise e, PromptFinished, w1)
              | Inr (stream, after) \<Rightarrow> prompt_resume print_stream stream after w1)
      | PromptSuspended stream after \<Rightarrow> prompt_resume print_stream stream after w
      | PromptFinished \<Rightarrow> (StopIteration, PromptFinished, w))"

fun prompt_gen_rank :: "prompt_gen \<Rightarrow> nat" where
  "prompt_gen_rank PromptCreated = 1"
| "prompt_gen_rank _ = 0"

fun prompt_gen_left :: "prompt_gen \<Rightarrow> nat" where
  "prompt_gen_left (PromptSuspended stream _) = length stream"
| "prompt_gen_left _ = 0"

lemma prompt_resume_Yield:
  "prompt_resume ps stream after w = (Yield t, g', w') \<Longrightarrow>
   prompt_gen_rank g' = 0 \<and> prompt_gen_left g' < length stream"
  by (induction stream) (auto simp: Let_def split: option.splits if_splits)

lemma prompt_next_Yield:
  "prompt_next llm p ps um g w = (Yield t, g', w') \<Longrightarrow>
   prompt_gen_rank g' < prompt_gen_rank g \<or>
   (prompt_gen_rank g' = prompt_gen_rank g \<and> prompt_gen_left g' < prompt_gen_left g)"
  by (cases g)
     (auto simp: prompt_next_def Let_def split: sum.splits
           dest: prompt_resume_Yield)

function prompt_drain ::
  "llama \<Rightarrow> string \<Rightarrow> bool \<Rightarrow> bool \<Rightarrow> prompt_gen \<Rightarrow> world \<Rightarrow>
   string list \<times> error option \<times> prompt_gen \<times> world" where
  "prompt_drain llm p print_stream use_memory g w =
     (case prompt_next llm p print_stream use_memory g w of
        (Yield token, g', w') \<Rightarrow>
          (case prompt_drain llm p print_stream use_memory g' w' of
             (tokens, r) \<Rightarrow> (token # tokens, r))
      | (StopIteration, g', w') \<Rightarrow> ([], None, g', w')
      | (Raise e, g', w') \<Rightarrow> ([], Some e, g', w'))"
  by pat_completeness auto
termination
  apply (relation "measures [\<lambda>(llm, p, ps, um, g, w). prompt_gen_rank g,
                             \<lambda>(llm, p, ps, um, g, w). prompt_gen_left g]")
   apply simp
  apply (auto dest: prompt_next_Yield prompt_next_Yield[OF sym])
  done

definition prompt_stream ::
  "llama \<Rightarrow> string \<Rightarrow> bool \<Rightarrow> bool \<Rightarrow> world \<Rightarrow> (error + prompt_gen option) \<times> world" where
  "prompt_stream llm p print_stream use_memory w =
     (let gen = PromptCreated
      in if print_stream then
           (case prompt_drain llm p print_stream use_memory gen w of
              (_, None, _, w') \<Rightarrow> (Inr None, w')
            | (_, Some e, _, w') \<Rightarrow> (Inl e, w'))
         else (Inr (Some gen), w))"

section \<open>Consumers of a stream\<close>

text \<open>
  A caller that holds a generator and calls \<^verbatim>\<open>next\<close> on it \<open>n\<close> times, doing
  nothing else to the session in between, and then lets go of it. The results of all
  the calls are returned in order.
\<close>

primrec chat_pulls ::
  "llama \<Rightarrow> string \<Rightarrow> bool \<Rightarrow> nat \<Rightarrow> chat_gen \<Rightarrow> world \<Rightarrow>
   string step list \<times> chat_gen \<times> world" where
  "chat_pulls llm p print_stream 0 g w = ([], g, w)"
| "chat_pulls llm p print_stream (Suc n) g w =
     (case chat_next llm p print_stream g w of
        (r, g', w') \<Rightarrow>
          (case chat_pulls llm p print_stream n g' w' of
             (rs, g'', w'') \<Rightarrow> (r # rs, g'', w'')))"

primrec prompt_pulls ::
  "llama \<Rightarrow> string \<Rightarrow> bool \<Rightarrow> bool \<Rightarrow> nat \<Rightarrow> prompt_gen \<Rightarrow> world \<Rightarrow>
   string step list \<times> prompt_gen \<times> world" where
  "prompt_pulls llm p print_stream use_memory 0 g w = ([], g, w)"
| "prompt_pulls llm p print_stream use_memory (Suc n) g w =
     (case prompt_next llm p print_stream use_memory g w of
        (r, g', w') \<Rightarrow>
          (case prompt_pulls llm p print_stream use_memory n g' w' of
             (rs, g'', w'') \<Rightarrow> (r # rs, g'', w'')))"

text \<open>The message lists the backend has been sent, and the list behind \<^verbatim>\<open>get_memory()\<close>.\<close>

definition sent :: "world \<Rightarrow> turn list list" where
  "sent w = map fst (calls w)"

definition memory_turns :: "world \<Rightarrow> turn list" where
  "memory_turns w = heap w (get_memory w)"

section \<open>gui.py: the initial render\<close>

text \<open>\<^verbatim>\<open>initial_history\<close> of \<^verbatim>\<open>Interface.render\<close>.\<close>

definition initial_history :: "world \<Rightarrow> (string \<times> string) list" where
  "initial_history w = memory_to_chatbot (heap w (get_memory w))"

section \<open>Vocabulary of the properties\<close>

text \<open>
  The text a chunk carries: the \<^verbatim>\<open>content\<close> of its \<^verbatim>\<open>delta\<close>, and the empty
  string when either is missing.
\<close>

definition fragment :: "chunk \<Rightarrow> string" where
  "fragment c =
     (case chunk_delta c of
        None \<Rightarrow> []
      | Some d \<Rightarrow> (case delta_content d of None \<Rightarrow> [] | Some t \<Rightarrow> t))"

text \<open>The chunk \<^verbatim>\<open>{"choices": [{"delta": {"content": t}}]}\<close>.\<close>

definition text_chunk :: "string \<Rightarrow> chunk" where
  "text_chunk t = Chunk (Some (Delta (Some t)))"

text \<open>
  Two backends for concrete runs: one answers every blocking call with the same text and
  every streaming call with the same chunks; the other raises on every call.
\<close>

definition scripted_llama :: "string \<Rightarrow> chunk list \<Rightarrow> llama" where
  "scripted_llama r cs =
     \<lparr>create_chat_completion = (\<lambda>_. Inr r),
      create_chat_completion_stream = (\<lambda>_. Inr (cs, None))\<rparr>"

definition failing_llama :: "error \<Rightarrow> llama" where
  "failing_llama e =
     \<lparr>create_chat_completion = (\<lambda>_. Inl e),
      create_chat_completion_stream = (\<lambda>_. Inl e)\<rparr>"

text \<open>Neither the reference \<^verbatim>\<open>self.memory\<close> nor any list object has changed.\<close>

definition memory_unchanged :: "world \<Rightarrow> world \<Rightarrow> bool" where
  "memory_unchanged w w' = (get_memory w' = get_memory w \<and> heap w' = heap w)"


section \<open>Properties of the display conversion\<close>

lemma turn_user_eq: "role msg = ''user'' \<Longrightarrow> \<lparr>role = ''user'', content = content msg\<rparr> = msg"
  by (cases msg) simp

lemma memory_to_chatbot_loop_adjacent:
  "memory_to_chatbot_loop history pairs current_user =
     pairs @ adjacent_pairs
       ((case current_user of Some u \<Rightarrow> [user_turn u] | None \<Rightarrow> []) @ conversational history)"
proof (induction history arbitrary: pairs current_user)
  case Nil
  then show ?case
    by (simp add: conversational_def user_turn_def split: option.splits)
next
  case (Cons msg history)
  show ?case
  proof (cases "role msg = ''user''")
    case True
    then show ?thesis
      using Cons.IH[of pairs "Some (content msg)"]
      by (simp add: conversational_def user_turn_def turn_user_eq split: option.splits)
  next
    case not_user: False
    show ?thesis
    proof (cases "role msg = ''assistant''")
      case True
      then show ?thesis
        using not_user Cons.IH[of _ None]
        by (cases "conversational history")
           (auto simp add: conversational_def user_turn_def split: option.splits)
    next
      case False
      then show ?thesis
        using not_user Cons.IH by (simp add: conversational_def)
    qed
  qed
qed

lemma memory_to_chatbot_eq: "memory_to_chatbot history = adjacent_pairs (conversational history)"
  by (simp add: memory_to_chatbot_def memory_to_chatbot_loop_adjacent)

lemma adjacent_pairs_snoc_user:
  "role u = ''user'' \<Longrightarrow> adjacent_pairs (ms @ [u]) = adjacent_pairs ms"
  by (induction ms rule: adjacent_pairs.induct) auto

lemma conversational_snoc_user:
  "conversational (history @ [user_turn u]) = conversational history @ [user_turn u]"
  by (simp add: conversational_def user_turn_def)

lemma conversational_without_system:
  "conversational (filter (\<lambda>m. role m \<noteq> ''system'') history) = conversational history"
  unfolding conversational_def filter_filter
  by (rule filter_cong) auto

text \<open>
  C9, as the code has it. The conversion returns, in order, the (user, assistant) pairs
  of turns that are next to each other once the turns of any other role are left out: an
  assistant turn is paired with the most recent preceding user turn only when no other
  assistant turn lies between the two, and is dropped otherwise; a user turn followed by
  another user turn before any assistant turn is dropped. A trailing user turn is
  dropped, and so are system turns. The initial render of the adapter is this conversion
  of the list behind \<open>get_memory\<close>.
\<close>

theorem memory_to_chatbot_pairs_adjacent_turns:
  "memory_to_chatbot history = adjacent_pairs (conversational history) \<and>
   memory_to_chatbot (history @ [user_turn u]) = memory_to_chatbot history \<and>
   memory_to_chatbot (filter (\<lambda>m. role m \<noteq> ''system'') history) = memory_to_chatbot history \<and>
   initial_history w = adjacent_pairs (conversational (memory_turns w))"
proof -
  have "adjacent_pairs (conversational history @ [user_turn u]) =
        adjacent_pairs (conversational history)"
    by (rule adjacent_pairs_snoc_user) (simp add: user_turn_def)
  then have "memory_to_chatbot (history @ [user_turn u]) = memory_to_chatbot history"
    by (simp add: memory_to_chatbot_eq conversational_snoc_user)
  moreover have
    "memory_to_chatbot (filter (\<lambda>m. role m \<noteq> ''system'') history) = memory_to_chatbot history"
    by (simp add: memory_to_chatbot_eq conversational_without_system)
  moreover have "initial_history w = adjacent_pairs (conversational (memory_turns w))"
    by (simp add: initial_history_def memory_turns_def memory_to_chatbot_eq)
  ultimately show ?thesis
    by (simp add: memory_to_chatbot_eq)
qed

theorem memory_to_chatbot_pairs_adjacent_turns_witness:
  "memory_to_chatbot
     [system_turn ''S'', user_turn ''u1'', assistant_turn ''a1'', user_turn ''u2''] =
   [(''u1'', ''a1'')]"
  using memory_to_chatbot_pairs_adjacent_turns
    [of "[system_turn ''S'', user_turn ''u1'', assistant_turn ''a1'', user_turn ''u2'']"
        "''x''" "init ''S''"]
  by (simp add: conversational_def system_turn_def user_turn_def assistant_turn_def)

text \<open>
  C9, as the specification words it, fails on a history with two user turns followed by
  two assistant turns (the memory a session has after a \<^verbatim>\<open>chat\<close> call made between
  the first \<^verbatim>\<open>next\<close> and the end of a \<^verbatim>\<open>chat_stream\<close>): the last assistant
  turn has an unpaired user turn before it, the first one, yet the code drops that
  assistant turn.
\<close>

theorem memory_to_chatbot_drops_second_answer:
  "memory_to_chatbot
     [system_turn ''S'', user_turn ''q1'', user_turn ''q2'', assistant_turn ''a2'',
      assistant_turn ''a1''] = [(''q2'', ''a2'')] \<and>
   spec_pairs
     [system_turn ''S'', user_turn ''q1'', user_turn ''q2'', assistant_turn ''a2'',
      assistant_turn ''a1''] = [(''q2'', ''a2''), (''q1'', ''a1'')] \<and>
   memory_to_chatbot
     [system_turn ''S'', user_turn ''q1'', user_turn ''q2'', assistant_turn ''a2'',
      assistant_turn ''a1''] \<noteq>
   spec_pairs
     [system_turn ''S'', user_turn ''q1'', user_turn ''q2'', assistant_turn ''a2'',
      assistant_turn ''a1'']"
  by (simp add: memory_to_chatbot_def spec_pairs_def system_turn_def user_turn_def
                assistant_turn_def)

section \<open>Properties of the chat generator\<close>

declare chat_drain.simps [simp del] prompt_drain.simps [simp del]

lemma chat_drain_suspended:
  "chat_drain llm p ps (ChatSuspended cs after full) w =
     (case chat_resume ps cs after full w of
        (Yield token, g', w') \<Rightarrow>
          (case chat_drain llm p ps g' w' of (tokens, r) \<Rightarrow> (token # tokens, r))
      | (StopIteration, g', w') \<Rightarrow> ([], None, g', w')
      | (Raise e, g', w') \<Rightarrow> ([], Some e, g', w'))"
  by (subst chat_drain.simps) (simp add: chat_next_def)

lemma chat_drain_suspended_Nil:
  "chat_drain llm p ps (ChatSuspended [] after full) w =
     (case after of
        Some e \<Rightarrow> ([], Some e, ChatFinished, w)
      | None \<Rightarrow> ([], None, ChatFinished,
          list_append (memory w) (assistant_turn full) (if ps then print_newline w else w)))"
  by (simp add: chat_drain_suspended print_newline_def split: option.splits)

lemma chat_drain_suspended_Cons:
  "chat_drain llm p ps (ChatSuspended (c # cs) after full) w =
     (case chunk_delta c of
        None \<Rightarrow> ([], Some (KeyError ''delta''), ChatFinished, w)
      | Some d \<Rightarrow>
          if fragment c \<noteq> [] then
            apfst ((#) (fragment c))
              (chat_drain llm p ps (ChatSuspended cs after (full @ fragment c))
                 (if ps then print_end (fragment c) w else w))
          else chat_drain llm p ps (ChatSuspended cs after full) w)"
proof (cases "chunk_delta c")
  case None
  then show ?thesis by (simp add: chat_drain_suspended)
next
  case (Some d)
  show ?thesis
  proof (cases "fragment c = []")
    case True
    then have "chat_resume ps (c # cs) after full w = chat_resume ps cs after full w"
      using Some by (simp add: fragment_def Let_def)
    then have "chat_drain llm p ps (ChatSuspended (c # cs) after full) w =
               chat_drain llm p ps (ChatSuspended cs after full) w"
      by (simp add: chat_drain_suspended)
    then show ?thesis using True Some by simp
  next
    case False
    then have "chat_resume ps (c # cs) after full w =
               (Yield (fragment c), ChatSuspended cs after (full @ fragment c),
                if ps then print_end (fragment c) w else w)"
      using Some by (simp add: fragment_def Let_def)
    then show ?thesis using False Some
      by (simp add: chat_drain_suspended[of llm p ps "c # cs"] apfst_def map_prod_def
               split: prod.splits)
  qed
qed

lemma chat_drain_created:
  "chat_drain llm p ps ChatCreated w =
     (let w2 = log_call (heap w (memory w) @ [user_turn p]) True
                 (list_append (memory w) (user_turn p) w)
      in case create_chat_completion_stream llm (heap w (memory w) @ [user_turn p]) of
           Inl e \<Rightarrow> ([], Some e, ChatFinished, w2)
         | Inr (cs, after) \<Rightarrow> chat_drain llm p ps (ChatSuspended cs after []) w2)"
proof (cases "create_chat_completion_stream llm (heap w (memory w) @ [user_turn p])")
  case (Inl e)
  then show ?thesis
    by (subst chat_drain.simps) (simp add: chat_next_def list_append_def Let_def)
next
  case (Inr r)
  obtain cs after where r: "r = (cs, after)" by (cases r)
  have "chat_next llm p ps ChatCreated w =
        chat_resume ps cs after []
          (log_call (heap w (memory w) @ [user_turn p]) True
             (list_append (memory w) (user_turn p) w))"
    using Inr r by (simp add: chat_next_def list_append_def Let_def)
  then show ?thesis using Inr r
    by (simp add: chat_drain.simps[of llm p ps ChatCreated] chat_drain_suspended Let_def)
qed


lemma chat_resume_world:
  "chat_resume ps cs after full w = (r, g', w') \<Longrightarrow>
   memory w' = memory w \<and> calls w' = calls w \<and> system_prompt w' = system_prompt w"
  by (induction cs arbitrary: full)
     (auto simp: Let_def list_append_def print_newline_def print_end_def
           split: option.splits if_splits)

lemma chat_resume_Yield_heap:
  "chat_resume ps cs after full w = (Yield t, g', w') \<Longrightarrow>
   heap w' = heap w \<and> (\<exists>cs' full'. g' = ChatSuspended cs' after full')"
  by (induction cs arbitrary: full)
     (auto simp: Let_def print_end_def split: option.splits if_splits)

lemma chat_drain_suspended_commit:
  "chat_drain llm p ps (ChatSuspended cs after full) w = (tokens, None, g', w') \<Longrightarrow>
   memory w' = memory w \<and>
   heap w' = (heap w)(memory w := heap w (memory w) @ [assistant_turn (full @ concat tokens)])"
proof (induction cs arbitrary: full w tokens)
  case Nil
  then show ?case
    by (auto simp: chat_drain_suspended_Nil list_append_def print_newline_def
             split: option.splits if_splits)
next
  case (Cons c cs)
  show ?case
  proof (cases "chunk_delta c")
    case None
    then show ?thesis using Cons.prems by (simp add: chat_drain_suspended_Cons)
  next
    case (Some d)
    show ?thesis
    proof (cases "fragment c = []")
      case True
      then show ?thesis using Cons Some by (simp add: chat_drain_suspended_Cons)
    next
      case False
      let ?w = "if ps then print_end (fragment c) w else w"
      obtain rest where
        rest: "chat_drain llm p ps (ChatSuspended cs after (full @ fragment c)) ?w =
               (rest, None, g', w')" and tokens: "tokens = fragment c # rest"
        using Cons.prems Some False
        by (cases "chat_drain llm p ps (ChatSuspended cs after (full @ fragment c)) ?w")
           (auto simp: chat_drain_suspended_Cons)
      from Cons.IH[OF rest] show ?thesis
        using tokens by (auto simp: print_end_def)
    qed
  qed
qed

lemma chat_drain_suspended_tokens:
  "fst (chat_drain llm p ps (ChatSuspended cs after full) w) =
   filter (\<lambda>t. t \<noteq> []) (map fragment (takeWhile (\<lambda>c. chunk_delta c \<noteq> None) cs))"
proof (induction cs arbitrary: full w)
  case Nil
  then show ?case by (simp add: chat_drain_suspended_Nil split: option.splits)
next
  case (Cons c cs)
  then show ?case
    by (cases "chunk_delta c") (simp_all add: chat_drain_suspended_Cons)
qed

lemma chat_drain_suspended_outcome:
  "\<forall>c\<in>set cs. chunk_delta c \<noteq> None \<Longrightarrow>
   fst (snd (chat_drain llm p ps (ChatSuspended cs after full) w)) = after"
proof (induction cs arbitrary: full w)
  case Nil
  then show ?case by (simp add: chat_drain_suspended_Nil split: option.splits)
next
  case (Cons c cs)
  then show ?case
    by (cases "chunk_delta c") (simp_all add: chat_drain_suspended_Cons)
qed

lemma chat_pulls_suspended_heap:
  "chat_pulls llm p ps n (ChatSuspended cs after full) w = (map Yield frags, g', w') \<Longrightarrow>
   heap w' = heap w \<and> memory w' = memory w"
proof (induction n arbitrary: cs full w frags)
  case 0
  then show ?case by simp
next
  case (Suc n)
  obtain r g1 w1 where step: "chat_resume ps cs after full w = (r, g1, w1)"
    by (cases "chat_resume ps cs after full w")
  obtain rs g2 w2 where rest: "chat_pulls llm p ps n g1 w1 = (rs, g2, w2)"
    by (cases "chat_pulls llm p ps n g1 w1")
  from Suc.prems step rest have eq: "map Yield frags = r # rs" "g2 = g'" "w2 = w'"
    by (simp_all add: chat_next_def)
  then obtain t frags' where r: "r = Yield t" and rs: "rs = map Yield frags'"
    by (cases frags) auto
  from chat_resume_Yield_heap[OF step[unfolded r]] obtain cs' full'
    where h1: "heap w1 = heap w" and g1: "g1 = ChatSuspended cs' after full'" by blast
  from chat_resume_world[OF step] have m1: "memory w1 = memory w" by simp
  from Suc.IH[of cs' full' w1 frags'] rest rs g1 eq
  have "heap w' = heap w1 \<and> memory w' = memory w1" by simp
  then show ?case using h1 m1 by simp
qed

section \<open>Properties of the prompt generator\<close>

lemma prompt_drain_suspended:
  "prompt_drain llm p ps um (PromptSuspended cs after) w =
     (case prompt_resume ps cs after w of
        (Yield token, g', w') \<Rightarrow>
          (case prompt_drain llm p ps um g' w' of (tokens, r) \<Rightarrow> (token # tokens, r))
      | (StopIteration, g', w') \<Rightarrow> ([], None, g', w')
      | (Raise e, g', w') \<Rightarrow> ([], Some e, g', w'))"
  by (subst prompt_drain.simps) (simp add: prompt_next_def)

lemma prompt_drain_suspended_Nil:
  "prompt_drain llm p ps um (PromptSuspended [] after) w =
     (case after of
        Some e \<Rightarrow> ([], Some e, PromptFinished, w)
      | None \<Rightarrow> ([], None, PromptFinished, if ps then print_newline w else w))"
  by (simp add: prompt_drain_suspended split: option.splits)

lemma prompt_resume_Cons:
  "prompt_resume ps (c # cs) after w =
     (if fragment c \<noteq> [] then
        (Yield (fragment c), PromptSuspended cs after,
         if ps then print_end (fragment c) w else w)
      else prompt_resume ps cs after w)"
  by (simp add: fragment_def Let_def split: option.splits)

lemma prompt_drain_suspended_Cons:
  "prompt_drain llm p ps um (PromptSuspended (c # cs) after) w =
     (if fragment c \<noteq> [] then
        apfst ((#) (fragment c))
          (prompt_drain llm p ps um (PromptSuspended cs after)
             (if ps then print_end (fragment c) w else w))
      else prompt_drain llm p ps um (PromptSuspended cs after) w)"
proof (cases "fragment c = []")
  case True
  then have "prompt_drain llm p ps um (PromptSuspended (c # cs) after) w =
             prompt_drain llm p ps um (PromptSuspended cs after) w"
    by (simp add: prompt_drain_suspended prompt_resume_Cons del: prompt_resume.simps)
  then show ?thesis using True by simp
next
  case False
  then show ?thesis
    by (simp add: prompt_drain_suspended[of llm p ps um "c # cs"] prompt_resume_Cons
                  apfst_def map_prod_def
             del: prompt_resume.simps split: prod.splits)
qed

lemma prompt_drain_created:
  "prompt_drain llm p ps um PromptCreated w =
     (let w1 = log_call (temp_memory um p w) True w
      in case create_chat_completion_stream llm (temp_memory um p w) of
           Inl e \<Rightarrow> ([], Some e, PromptFinished, w1)
         | Inr (cs, after) \<Rightarrow> prompt_drain llm p ps um (PromptSuspended cs after) w1)"
proof (cases "create_chat_completion_stream llm (temp_memory um p w)")
  case (Inl e)
  then show ?thesis
    by (subst prompt_drain.simps) (simp add: prompt_next_def Let_def)
next
  case (Inr r)
  obtain cs after where r: "r = (cs, after)" by (cases r)
  have "prompt_next llm p ps um PromptCreated w =
        prompt_resume ps cs after (log_call (temp_memory um p w) True w)"
    using Inr r by (simp add: prompt_next_def Let_def)
  then show ?thesis using Inr r
    by (simp add: prompt_drain.simps[of llm p ps um PromptCreated] prompt_drain_suspended Let_def)
qed

lemma prompt_resume_frame:
  "memory_unchanged w (snd (snd (prompt_resume ps cs after w))) \<and>
   system_prompt (snd (snd (prompt_resume ps cs after w))) = system_prompt w \<and>
   calls (snd (snd (prompt_resume ps cs after w))) = calls w"
  by (induction cs)
     (auto simp: Let_def memory_unchanged_def get_memory_def print_newline_def print_end_def
           split: option.splits)

lemma prompt_next_frame:
  "memory_unchanged w (snd (snd (prompt_next llm p ps um g w)))"
  using prompt_resume_frame[of _ ps]
  by (cases g)
     (auto simp: prompt_next_def Let_def log_call_def memory_unchanged_def get_memory_def
           split: sum.splits)

lemma memory_unchanged_trans:
  "memory_unchanged w w1 \<Longrightarrow> memory_unchanged w1 w2 \<Longrightarrow> memory_unchanged w w2"
  by (simp add: memory_unchanged_def)

lemma prompt_pulls_frame:
  "memory_unchanged w (snd (snd (prompt_pulls llm p ps um n g w)))"
proof (induction n arbitrary: g w)
  case 0
  then show ?case by (simp add: memory_unchanged_def)
next
  case (Suc n)
  obtain r g1 w1 where step: "prompt_next llm p ps um g w = (r, g1, w1)"
    by (cases "prompt_next llm p ps um g w")
  have "memory_unchanged w w1" using prompt_next_frame[of w llm p ps um g] step by simp
  moreover have "memory_unchanged w1 (snd (snd (prompt_pulls llm p ps um n g1 w1)))"
    by (rule Suc.IH)
  ultimately show ?case using step
    by (auto simp: split: prod.splits dest: memory_unchanged_trans)
qed

lemma prompt_drain_frame:
  "memory_unchanged w (snd (snd (snd (prompt_drain llm p ps um g w))))"
proof (induction llm p ps um g w rule: prompt_drain.induct)
  case (1 llm p ps um g w)
  obtain r g1 w1 where step: "prompt_next llm p ps um g w = (r, g1, w1)"
    by (cases "prompt_next llm p ps um g w")
  have first: "memory_unchanged w w1"
    using prompt_next_frame[of w llm p ps um g] step by simp
  show ?case
  proof (cases r)
    case (Yield t)
    have "memory_unchanged w1 (snd (snd (snd (prompt_drain llm p ps um g1 w1))))"
      using "1.IH"[OF step[symmetric] Yield refl] .
    with first have "memory_unchanged w (snd (snd (snd (prompt_drain llm p ps um g1 w1))))"
      by (rule memory_unchanged_trans)
    then show ?thesis using step Yield
      by (subst prompt_drain.simps) (auto split: prod.splits)
  next
    case StopIteration
    then show ?thesis using step first by (subst prompt_drain.simps) simp
  next
    case (Raise e)
    then show ?thesis using step first by (subst prompt_drain.simps) simp
  qed
qed

lemma prompt_drain_suspended_tokens:
  "fst (prompt_drain llm p ps um (PromptSuspended cs after) w) =
   filter (\<lambda>t. t \<noteq> []) (map fragment cs)"
proof (induction cs arbitrary: w)
  case Nil
  then show ?case by (simp add: prompt_drain_suspended_Nil split: option.splits)
next
  case (Cons c cs)
  then show ?case by (simp add: prompt_drain_suspended_Cons)
qed

lemma prompt_drain_suspended_outcome:
  "fst (snd (prompt_drain llm p ps um (PromptSuspended cs after) w)) = after"
proof (induction cs arbitrary: w)
  case Nil
  then show ?case by (simp add: prompt_drain_suspended_Nil split: option.splits)
next
  case (Cons c cs)
  then show ?case by (simp add: prompt_drain_suspended_Cons)
qed

section \<open>The blocking calls\<close>

text \<open>
  C4. On a freshly constructed session with system prompt \<open>S\<close>, \<^verbatim>\<open>chat(p)\<close> (the
  claim takes \<open>p = "hi"\<close>) returns the text \<open>R\<close> the backend returns for the message
  list \<open>[{system, S}, {user, p}]\<close>, the only list it is sent, and afterwards the memory
  is \<open>[{system, S}, {user, p}, {assistant, R}]\<close>.
\<close>

theorem chat_fresh_session:
  "create_chat_completion llm [system_turn S, user_turn p] = Inr R \<Longrightarrow>
   fst (chat llm p (init S)) = Inr R \<and>
   memory_turns (snd (chat llm p (init S))) = [system_turn S, user_turn p, assistant_turn R] \<and>
   calls (snd (chat llm p (init S))) = [([system_turn S, user_turn p], False)]"
  by (simp add: chat_def init_def list_append_def log_call_def memory_turns_def
                get_memory_def Let_def)

theorem chat_fresh_session_witness:
  "fst (chat (scripted_llama ''Hello'' []) ''hi'' (init ''S'')) = Inr ''Hello'' \<and>
   memory_turns (snd (chat (scripted_llama ''Hello'' []) ''hi'' (init ''S''))) =
     [system_turn ''S'', user_turn ''hi'', assistant_turn ''Hello'']"
  using chat_fresh_session[of "scripted_llama ''Hello'' []" "''S''" "''hi''" "''Hello''"]
  by (simp add: scripted_llama_def)

text \<open>
  C6. If the backend raises during \<^verbatim>\<open>chat(p)\<close>, the caller gets that same error,
  the backend has been called once (no retry), and the memory is the memory before the
  call with \<open>{user, p}\<close> appended: the user turn is not rolled back and there is no
  assistant turn.
\<close>

theorem chat_backend_failure:
  "create_chat_completion llm (memory_turns w @ [user_turn p]) = Inl e \<Longrightarrow>
   fst (chat llm p w) = Inl e \<and>
   memory_turns (snd (chat llm p w)) = memory_turns w @ [user_turn p] \<and>
   calls (snd (chat llm p w)) = calls w @ [(memory_turns w @ [user_turn p], False)]"
  by (simp add: chat_def list_append_def log_call_def memory_turns_def get_memory_def Let_def)

theorem chat_backend_failure_witness:
  "fst (chat (failing_llama (BackendFailure ''out of memory'')) ''hi'' (init ''S'')) =
     Inl (BackendFailure ''out of memory'') \<and>
   memory_turns (snd (chat (failing_llama (BackendFailure ''out of memory'')) ''hi'' (init ''S''))) =
     [system_turn ''S'', user_turn ''hi''] \<and>
   calls (snd (chat (failing_llama (BackendFailure ''out of memory'')) ''hi'' (init ''S''))) =
     [([system_turn ''S'', user_turn ''hi''], False)]"
  using chat_backend_failure[of "failing_llama (BackendFailure ''out of memory'')"
          "init ''S''" "''hi''" "BackendFailure ''out of memory''"]
  by (simp add: failing_llama_def memory_turns_def get_memory_def init_def)

lemma prompt_frame: "memory_unchanged w (snd (prompt llm p um w))"
  by (simp add: prompt_def Let_def log_call_def memory_unchanged_def get_memory_def
           split: sum.splits)

lemma prompt_stream_frame: "memory_unchanged w (snd (prompt_stream llm p ps um w))"
  using prompt_drain_frame[of w llm p ps um PromptCreated]
  by (cases "prompt_drain llm p ps um PromptCreated w")
     (auto simp: prompt_stream_def Let_def memory_unchanged_def split: option.splits)

text \<open>
  C5. \<^verbatim>\<open>prompt\<close> and \<^verbatim>\<open>prompt_stream\<close> never mutate the memory: whatever the
  backend answers, for either value of \<^verbatim>\<open>use_memory\<close> and of \<^verbatim>\<open>print_stream\<close>,
  and however many times the consumer resumes the generator (from any of its states),
  \<^verbatim>\<open>get_memory()\<close> is the same list object with the same elements, and no other list
  object has changed either.
\<close>

theorem prompt_never_mutates_memory:
  "memory_unchanged w (snd (prompt llm p use_memory w)) \<and>
   memory_unchanged w (snd (prompt_stream llm p print_stream use_memory w)) \<and>
   memory_unchanged w (snd (snd (prompt_pulls llm p print_stream use_memory n g w))) \<and>
   memory_turns (snd (prompt llm p use_memory w)) = memory_turns w \<and>
   memory_turns (snd (prompt_stream llm p print_stream use_memory w)) = memory_turns w \<and>
   memory_turns (snd (snd (prompt_pulls llm p print_stream use_memory n g w))) = memory_turns w"
proof -
  have same: "memory_turns w' = memory_turns w" if "memory_unchanged w w'" for w'
    using that by (simp add: memory_unchanged_def memory_turns_def)
  show ?thesis
    using prompt_frame[of w llm p use_memory]
          prompt_stream_frame[of w llm p print_stream use_memory]
          prompt_pulls_frame[of w llm p print_stream use_memory n g]
    by (simp add: same)
qed

theorem prompt_never_mutates_memory_witness:
  "memory_turns (snd (prompt (scripted_llama ''r'' []) ''hi'' True (init ''S''))) = [system_turn ''S''] \<and>
   memory_turns (snd (prompt_stream (scripted_llama ''r'' [text_chunk ''He'']) ''hi'' True False (init ''S''))) = [system_turn ''S''] \<and>
   memory_turns (snd (snd (prompt_pulls (scripted_llama ''r'' [text_chunk ''He'', text_chunk ''llo'']) ''hi'' False True 1 PromptCreated (init ''S'')))) = [system_turn ''S'']"
  using prompt_never_mutates_memory
          [where w = "init ''S''" and llm = "scripted_llama ''r'' []" and p = "''hi''"
             and use_memory = True and print_stream = False and n = 0 and g = PromptCreated]
        prompt_never_mutates_memory
          [where w = "init ''S''" and llm = "scripted_llama ''r'' [text_chunk ''He'']"
             and p = "''hi''" and use_memory = False and print_stream = True and n = 0
             and g = PromptCreated]
        prompt_never_mutates_memory
          [where w = "init ''S''"
             and llm = "scripted_llama ''r'' [text_chunk ''He'', text_chunk ''llo'']"
             and p = "''hi''" and use_memory = True and print_stream = False and n = 1
             and g = PromptCreated]
  by (simp add: memory_turns_def get_memory_def init_def)

text \<open>
  C7. On a session whose memory is not empty, \<^verbatim>\<open>modify_system_prompt(t)\<close> replaces
  element 0 of the memory by \<open>{system, t}\<close> and changes nothing else in the world; in
  particular the attribute \<^verbatim>\<open>system_prompt\<close> keeps its value, and a following
  \<^verbatim>\<open>prompt(m, use_memory=False)\<close> sends the backend the old prompt text, not \<open>t\<close>.
\<close>

theorem modify_system_prompt_only_memory:
  "memory_turns w \<noteq> [] \<Longrightarrow>
   modify_system_prompt t w =
     (Inr (), w\<lparr>heap := (heap w)(memory w := system_turn t # tl (memory_turns w))\<rparr>) \<and>
   content (hd (memory_turns (snd (modify_system_prompt t w)))) = t \<and>
   system_prompt (snd (modify_system_prompt t w)) = system_prompt w \<and>
   sent (snd (prompt llm m False (snd (modify_system_prompt t w)))) =
     sent w @ [[system_turn (system_prompt w), user_turn m]]"
  by (cases "heap w (memory w)")
     (simp_all add: modify_system_prompt_def list_setitem_def memory_turns_def get_memory_def
                system_turn_def sent_def prompt_def temp_memory_def log_call_def Let_def
           split: sum.splits)

theorem modify_system_prompt_only_memory_witness:
  "memory_turns (snd (modify_system_prompt ''New'' (init ''S''))) = [system_turn ''New''] \<and>
   system_prompt (snd (modify_system_prompt ''New'' (init ''S''))) = ''S'' \<and>
   sent (snd (prompt (scripted_llama ''r'' []) ''q'' False (snd (modify_system_prompt ''New'' (init ''S''))))) =
     [[system_turn ''S'', user_turn ''q'']]"
proof -
  have nonempty: "memory_turns (init ''S'') \<noteq> []"
    by (simp add: memory_turns_def get_memory_def init_def)
  from modify_system_prompt_only_memory[OF nonempty, of "''New''" "scripted_llama ''r'' []" "''q''"]
  show ?thesis
    by (simp add: memory_turns_def get_memory_def init_def sent_def modify_system_prompt_def
                  list_setitem_def prompt_def temp_memory_def log_call_def scripted_llama_def)
qed

text \<open>
  On a session whose memory is the empty list (which only \<^verbatim>\<open>set_memory([])\<close>
  produces) there is no element 0: the assignment raises and nothing changes.
\<close>

lemma modify_system_prompt_empty:
  "memory_turns w = [] \<Longrightarrow> modify_system_prompt t w = (Inl IndexError, w)"
  by (simp add: modify_system_prompt_def list_setitem_def memory_turns_def get_memory_def)

section \<open>The memory accessors\<close>

text \<open>
  C2, as the code has it. \<^verbatim>\<open>get_memory()\<close> returns the list object the session
  holds, not a copy of it: what the caller appends to the returned list, or stores at an
  index of it, is appended to or stored in the session's memory, and the next
  \<^verbatim>\<open>get_memory()\<close> returns the mutated sequence.
\<close>

theorem get_memory_is_the_store:
  "get_memory w = memory w \<and>
   memory_turns (list_append (get_memory w) x w) = memory_turns w @ [x] \<and>
   (i < length (memory_turns w) \<longrightarrow>
      memory_turns (snd (list_setitem (get_memory w) i x w)) = (memory_turns w)[i := x])"
  by (simp add: get_memory_def memory_turns_def list_append_def list_setitem_def)

theorem get_memory_is_the_store_witness:
  "memory_turns (list_append (get_memory (init ''S'')) (user_turn ''x'') (init ''S'')) =
     [system_turn ''S'', user_turn ''x''] \<and>
   memory_turns (snd (list_setitem (get_memory (init ''S'')) 0 (user_turn ''x'') (init ''S''))) =
     [user_turn ''x'']"
  using get_memory_is_the_store[of "init ''S''" "user_turn ''x''" 0]
  by (simp add: get_memory_def memory_turns_def init_def)

text \<open>
  C2, as the specification words it, fails: after the caller has appended a turn to the
  list \<^verbatim>\<open>get_memory()\<close> returned, \<^verbatim>\<open>get_memory()\<close> no longer returns the
  original turn sequence.
\<close>

theorem get_memory_aliases_counterexample:
  "memory_turns (init ''S'') = [system_turn ''S''] \<and>
   memory_turns (list_append (get_memory (init ''S'')) (user_turn ''x'') (init ''S'')) =
     [system_turn ''S'', user_turn ''x''] \<and>
   memory_turns (list_append (get_memory (init ''S'')) (user_turn ''x'') (init ''S'')) \<noteq>
     memory_turns (init ''S'')"
  by (simp add: get_memory_def memory_turns_def init_def list_append_def)

section \<open>Auxiliary facts about the streaming calls\<close>

lemma takeWhile_all: "\<forall>c\<in>set cs. P c \<Longrightarrow> takeWhile P cs = cs"
  by (induction cs) auto

lemma chat_next_created_world:
  "chat_next llm p ps ChatCreated w = (r, g1, w1) \<Longrightarrow>
   memory w1 = memory w \<and>
   calls w1 = calls w @ [(heap w (memory w) @ [user_turn p], True)]"
proof -
  let ?w2 = "log_call (heap w (memory w) @ [user_turn p]) True
               (list_append (memory w) (user_turn p) w)"
  assume step: "chat_next llm p ps ChatCreated w = (r, g1, w1)"
  show ?thesis
  proof (cases "create_chat_completion_stream llm (heap w (memory w) @ [user_turn p])")
    case (Inl e)
    then show ?thesis using step
      by (auto simp: chat_next_def Let_def list_append_def log_call_def)
  next
    case (Inr s)
    obtain cs after where s: "s = (cs, after)" by (cases s)
    have "chat_resume ps cs after [] ?w2 = (r, g1, w1)"
      using step Inr s by (simp add: chat_next_def Let_def list_append_def)
    from chat_resume_world[OF this] show ?thesis
      by (simp add: log_call_def list_append_def)
  qed
qed

lemma chat_resume_heap:
  "chat_resume ps cs after full w = (r, g1, w1) \<Longrightarrow>
   heap w1 = heap w \<or> (\<exists>m. heap w1 = (heap w)(memory w := heap w (memory w) @ [m]))"
  by (induction cs arbitrary: full)
     (auto simp: Let_def list_append_def print_newline_def print_end_def
           split: option.splits if_splits)

lemma chat_next_created_prefix:
  "take (Suc (length (heap w (memory w))))
        (heap (snd (snd (chat_next llm p ps ChatCreated w))) (memory w)) =
   heap w (memory w) @ [user_turn p]"
proof -
  let ?w2 = "log_call (heap w (memory w) @ [user_turn p]) True
               (list_append (memory w) (user_turn p) w)"
  show ?thesis
  proof (cases "create_chat_completion_stream llm (heap w (memory w) @ [user_turn p])")
    case (Inl e)
    then show ?thesis
      by (simp add: chat_next_def Let_def list_append_def log_call_def)
  next
    case (Inr s)
    obtain cs after where s: "s = (cs, after)" by (cases s)
    obtain r g1 w1 where res: "chat_resume ps cs after [] ?w2 = (r, g1, w1)"
      by (cases "chat_resume ps cs after [] ?w2")
    have next_eq: "chat_next llm p ps ChatCreated w = (r, g1, w1)"
      using Inr s res by (simp add: chat_next_def Let_def list_append_def)
    from chat_resume_heap[OF res]
    have "heap w1 (memory w) = heap ?w2 (memory w) \<or>
          (\<exists>m. heap w1 (memory w) = heap ?w2 (memory w) @ [m])"
      by (auto simp: log_call_def list_append_def)
    then show ?thesis using next_eq
      by (auto simp: log_call_def list_append_def)
  qed
qed

lemma chat_next_started_calls:
  "g \<noteq> ChatCreated \<Longrightarrow> calls (snd (snd (chat_next llm p ps g w))) = calls w"
proof (cases g)
  case (ChatSuspended cs after full)
  obtain r g1 w1 where res: "chat_resume ps cs after full w = (r, g1, w1)"
    by (cases "chat_resume ps cs after full w")
  from chat_resume_world[OF res] show ?thesis
    using ChatSuspended res by (simp add: chat_next_def)
qed (simp_all add: chat_next_def)

lemma prompt_next_created_calls:
  "calls (snd (snd (prompt_next llm p ps um PromptCreated w))) =
   calls w @ [(temp_memory um p w, True)]"
  using prompt_resume_frame[of "log_call (temp_memory um p w) True w" ps]
  by (auto simp: prompt_next_def Let_def log_call_def split: sum.splits)

lemma prompt_next_started_calls:
  "g \<noteq> PromptCreated \<Longrightarrow> calls (snd (snd (prompt_next llm p ps um g w))) = calls w"
  using prompt_resume_frame[of w ps]
  by (cases g) (auto simp: prompt_next_def)

lemma chat_drain_created_commit:
  assumes "chat_drain llm p ps ChatCreated w = (frags, None, g1, w1)"
  shows "memory w1 = memory w \<and>
         heap w1 (memory w) =
           heap w (memory w) @ [user_turn p, assistant_turn (concat frags)]"
proof -
  let ?msgs = "heap w (memory w) @ [user_turn p]"
  let ?w2 = "log_call ?msgs True (list_append (memory w) (user_turn p) w)"
  show ?thesis
  proof (cases "create_chat_completion_stream llm ?msgs")
    case (Inl e)
    then show ?thesis using assms by (simp add: chat_drain_created Let_def)
  next
    case (Inr s)
    obtain cs after where s: "s = (cs, after)" by (cases s)
    have "chat_drain llm p ps (ChatSuspended cs after []) ?w2 = (frags, None, g1, w1)"
      using assms Inr s by (simp add: chat_drain_created Let_def)
    from chat_drain_suspended_commit[OF this] show ?thesis
      by (simp add: log_call_def list_append_def)
  qed
qed

lemma chat_pulls_created_abandon:
  assumes "chat_pulls llm p ps (Suc n) ChatCreated w = (map Yield toks, g2, w2)"
  shows "memory w2 = memory w \<and> heap w2 (memory w) = heap w (memory w) @ [user_turn p]"
proof -
  let ?msgs = "heap w (memory w) @ [user_turn p]"
  let ?w0 = "log_call ?msgs True (list_append (memory w) (user_turn p) w)"
  obtain r g1 w1 where step: "chat_next llm p ps ChatCreated w = (r, g1, w1)"
    by (cases "chat_next llm p ps ChatCreated w")
  obtain rs g3 w3 where rest: "chat_pulls llm p ps n g1 w1 = (rs, g3, w3)"
    by (cases "chat_pulls llm p ps n g1 w1")
  from assms step rest have eq: "map Yield toks = r # rs" "g3 = g2" "w3 = w2"
    by simp_all
  then obtain t toks' where r: "r = Yield t" and rs: "rs = map Yield toks'"
    by (cases toks) auto
  show ?thesis
  proof (cases "create_chat_completion_stream llm ?msgs")
    case (Inl e)
    then show ?thesis using step r by (simp add: chat_next_def Let_def list_append_def)
  next
    case (Inr s)
    obtain cs after where s: "s = (cs, after)" by (cases s)
    have res: "chat_resume ps cs after [] ?w0 = (Yield t, g1, w1)"
      using step r Inr s by (simp add: chat_next_def Let_def list_append_def)
    from chat_resume_Yield_heap[OF res] obtain cs' full'
      where h1: "heap w1 = heap ?w0" and g1: "g1 = ChatSuspended cs' after full'" by blast
    from chat_resume_world[OF res] have m1: "memory w1 = memory ?w0" by simp
    from chat_pulls_suspended_heap[of llm p ps n cs' after full' w1 toks' g2 w2] rest rs g1 eq
    have "heap w2 = heap w1 \<and> memory w2 = memory w1" by simp
    then show ?thesis using h1 m1 by (simp add: log_call_def list_append_def)
  qed
qed

text \<open>
  A history with two questions followed by their two answers is one the session itself
  produces: start a \<^verbatim>\<open>chat_stream\<close>, take its first fragment, call \<^verbatim>\<open>chat\<close>,
  then run the stream to its end.
\<close>

lemma interleaved_history_reachable:
  "memory_turns
     (snd (snd (snd
        (chat_drain (scripted_llama ''a2'' [text_chunk ''a1'']) ''q1'' False
           (fst (snd (chat_next (scripted_llama ''a2'' [text_chunk ''a1'']) ''q1'' False
                        ChatCreated (init ''S''))))
           (snd (chat (scripted_llama ''a2'' [text_chunk ''a1'']) ''q2''
                   (snd (snd (chat_next (scripted_llama ''a2'' [text_chunk ''a1'']) ''q1'' False
                                ChatCreated (init ''S'')))))))))) =
   [system_turn ''S'', user_turn ''q1'', user_turn ''q2'', assistant_turn ''a2'',
    assistant_turn ''a1'']"
  by (simp add: chat_next_def chat_def scripted_llama_def text_chunk_def Let_def
                chat_drain_suspended_Nil list_append_def log_call_def init_def
                memory_turns_def get_memory_def)

section \<open>The streaming calls\<close>

text \<open>
  C8. A stream that is run to its end yields exactly the non-empty fragments of the
  chunks the backend delivers, once each and in order. For \<^verbatim>\<open>prompt_stream\<close> this
  holds for every chunk list; for \<^verbatim>\<open>chat_stream\<close> it holds when every chunk has a
  \<^verbatim>\<open>delta\<close> entry, as the chunks of the backend's interface do
  (\<^verbatim>\<open>chunk["choices"][0]["delta"]\<close> raises otherwise). The backend may end its
  iterator by raising: the fragments delivered before are yielded all the same.
\<close>

theorem streams_yield_nonempty_fragments:
  "(create_chat_completion_stream llm (temp_memory use_memory p w) = Inr (cs, after) \<longrightarrow>
      fst (prompt_drain llm p print_stream use_memory PromptCreated w) =
        filter (\<lambda>t. t \<noteq> []) (map fragment cs)) \<and>
   (create_chat_completion_stream llm (memory_turns w @ [user_turn p]) = Inr (cs, after) \<and>
    (\<forall>c\<in>set cs. chunk_delta c \<noteq> None) \<longrightarrow>
      fst (chat_drain llm p print_stream ChatCreated w) =
        filter (\<lambda>t. t \<noteq> []) (map fragment cs))"
  by (simp add: prompt_drain_created chat_drain_created Let_def memory_turns_def get_memory_def
                prompt_drain_suspended_tokens chat_drain_suspended_tokens takeWhile_all)

theorem streams_yield_nonempty_fragments_witness:
  "fst (prompt_drain (scripted_llama ''r'' [text_chunk ''He'', text_chunk '''', text_chunk ''llo''])
          ''hi'' False True PromptCreated (init ''S'')) = [''He'', ''llo''] \<and>
   fst (chat_drain (scripted_llama ''r'' [text_chunk ''He'', text_chunk '''', text_chunk ''llo''])
          ''hi'' False ChatCreated (init ''S'')) = [''He'', ''llo'']"
  using streams_yield_nonempty_fragments
          [where llm = "scripted_llama ''r'' [text_chunk ''He'', text_chunk '''', text_chunk ''llo'']"
             and use_memory = True and p = "''hi''" and w = "init ''S''"
             and cs = "[text_chunk ''He'', text_chunk '''', text_chunk ''llo'']"
             and after = None and print_stream = False]
  by (simp add: scripted_llama_def text_chunk_def fragment_def)

text \<open>
  C10. In \<^verbatim>\<open>prompt_stream\<close> a chunk without a \<^verbatim>\<open>delta\<close> entry, or whose
  \<^verbatim>\<open>delta\<close> has no \<^verbatim>\<open>content\<close> entry (or an empty one), is passed over: the
  generator goes on with the next chunk as if the chunk were not there, yielding nothing
  for it. So no chunk makes the generator raise: run to its end, it ends the way the
  backend's iterator ends, having yielded the non-empty fragments.
\<close>

theorem prompt_stream_skips_malformed_chunks:
  "prompt_resume print_stream (Chunk None # cs) after w = prompt_resume print_stream cs after w \<and>
   prompt_resume print_stream (Chunk (Some (Delta None)) # cs) after w =
     prompt_resume print_stream cs after w \<and>
   prompt_resume print_stream (Chunk (Some (Delta (Some []))) # cs) after w =
     prompt_resume print_stream cs after w \<and>
   (create_chat_completion_stream llm (temp_memory use_memory p w) = Inr (cs, after) \<longrightarrow>
      fst (snd (prompt_drain llm p print_stream use_memory PromptCreated w)) = after \<and>
      fst (prompt_drain llm p print_stream use_memory PromptCreated w) =
        filter (\<lambda>t. t \<noteq> []) (map fragment cs))"
  by (simp add: prompt_drain_created Let_def prompt_drain_suspended_tokens
                prompt_drain_suspended_outcome)

theorem prompt_stream_skips_malformed_chunks_witness:
  "prompt_drain (scripted_llama ''r'' [Chunk None, text_chunk ''He'', Chunk (Some (Delta None)), text_chunk ''llo''])
     ''hi'' False True PromptCreated (init ''S'') =
   ([''He'', ''llo''], None, PromptFinished,
    log_call [system_turn ''S'', user_turn ''hi''] True (init ''S''))"
  using prompt_stream_skips_malformed_chunks
          [where llm = "scripted_llama ''r'' [Chunk None, text_chunk ''He'', Chunk (Some (Delta None)), text_chunk ''llo'']"
             and use_memory = True and p = "''hi''" and w = "init ''S''"
             and cs = "[Chunk None, text_chunk ''He'', Chunk (Some (Delta None)), text_chunk ''llo'']"
             and after = None and print_stream = False]
  by (simp add: scripted_llama_def text_chunk_def fragment_def prompt_drain_created
                prompt_drain_suspended_Cons prompt_drain_suspended_Nil temp_memory_def init_def
                log_call_def Let_def)

text \<open>
  \<^verbatim>\<open>chat_stream\<close> has no such default: on a chunk without a \<^verbatim>\<open>delta\<close> entry
  its generator raises \<^verbatim>\<open>KeyError\<close>, with the memory as it is.
\<close>

lemma chat_stream_raises_on_missing_delta:
  "chat_resume print_stream (Chunk None # cs) after full_message w =
     (Raise (KeyError ''delta''), ChatFinished, w)"
  by simp

text \<open>
  C3, as the code has it. Creating a stream (\<^verbatim>\<open>print_stream\<close> false) changes
  nothing and calls nothing: \<^verbatim>\<open>chat_stream\<close> and \<^verbatim>\<open>prompt_stream\<close> return a
  generator that has not started, in an unchanged world. It is the first \<^verbatim>\<open>next\<close>
  that appends the user turn (for \<^verbatim>\<open>chat_stream\<close>) and builds the message list, from
  the memory and the \<^verbatim>\<open>system_prompt\<close> of the world it runs in, so from whatever the
  session has become since the stream was created. A generator that has started never
  calls the backend again.
\<close>

theorem stream_messages_built_at_first_next:
  "chat_stream llm p False w = (Inr (Some ChatCreated), w) \<and>
   prompt_stream llm p False use_memory w = (Inr (Some PromptCreated), w) \<and>
   sent (snd (snd (chat_next llm p ps ChatCreated w))) =
     sent w @ [memory_turns w @ [user_turn p]] \<and>
   get_memory (snd (snd (chat_next llm p ps ChatCreated w))) = get_memory w \<and>
   take (Suc (length (memory_turns w)))
        (memory_turns (snd (snd (chat_next llm p ps ChatCreated w)))) =
     memory_turns w @ [user_turn p] \<and>
   sent (snd (snd (prompt_next llm p ps use_memory PromptCreated w))) =
     sent w @ [temp_memory use_memory p w] \<and>
   (g \<noteq> ChatCreated \<longrightarrow> sent (snd (snd (chat_next llm p ps g w))) = sent w) \<and>
   (g' \<noteq> PromptCreated \<longrightarrow>
      sent (snd (snd (prompt_next llm p ps use_memory g' w))) = sent w)"
proof -
  obtain r g1 w1 where step: "chat_next llm p ps ChatCreated w = (r, g1, w1)"
    by (cases "chat_next llm p ps ChatCreated w")
  note first = chat_next_created_world[OF step]
  have "take (Suc (length (memory_turns w))) (memory_turns w1) = memory_turns w @ [user_turn p]"
    using chat_next_created_prefix[of w llm p ps] step first
    by (simp add: memory_turns_def get_memory_def)
  then show ?thesis
    using step first
    by (simp add: chat_stream_def prompt_stream_def sent_def memory_turns_def get_memory_def
                  chat_next_started_calls prompt_next_created_calls prompt_next_started_calls)
qed

theorem stream_messages_built_at_first_next_witness:
  "sent (snd (snd (chat_next (scripted_llama ''r'' [text_chunk ''He'', text_chunk ''llo''])
                     ''hi'' False ChatCreated (init ''S'')))) =
     [[system_turn ''S'', user_turn ''hi'']] \<and>
   sent (snd (snd (chat_next (scripted_llama ''r'' [text_chunk ''He'', text_chunk ''llo''])
                     ''hi'' False (ChatSuspended [text_chunk ''llo''] None ''He'')
                     (init ''S'')))) = [] \<and>
   sent (snd (snd (prompt_next (scripted_llama ''r'' [text_chunk ''He'', text_chunk ''llo''])
                     ''hi'' False True (PromptSuspended [text_chunk ''llo''] None)
                     (init ''S'')))) = []"
  using stream_messages_built_at_first_next
          [where llm = "scripted_llama ''r'' [text_chunk ''He'', text_chunk ''llo'']"
             and p = "''hi''" and ps = False and w = "init ''S''" and use_memory = True
             and g = "ChatSuspended [text_chunk ''llo''] None ''He''"
             and g' = "PromptSuspended [text_chunk ''llo''] None"]
  by (simp add: sent_def memory_turns_def get_memory_def init_def)

text \<open>
  C3, as the specification words it, fails: right after \<^verbatim>\<open>chat_stream("hi")\<close> has
  returned, the memory holds no user turn and the backend has been sent nothing; and
  after a \<^verbatim>\<open>modify_system_prompt("New")\<close> between the creation and the first
  \<^verbatim>\<open>next\<close>, the messages the stream sends carry the new system turn. The same
  holds for \<^verbatim>\<open>prompt_stream\<close>.
\<close>

theorem chat_stream_creation_is_lazy:
  "memory_turns (snd (chat_stream (scripted_llama ''r'' [text_chunk ''He'']) ''hi'' False
                        (init ''S''))) = [system_turn ''S''] \<and>
   sent (snd (chat_stream (scripted_llama ''r'' [text_chunk ''He'']) ''hi'' False
                (init ''S''))) = [] \<and>
   sent (snd (snd (chat_next (scripted_llama ''r'' [text_chunk ''He'']) ''hi'' False ChatCreated
     (snd (modify_system_prompt ''New''
        (snd (chat_stream (scripted_llama ''r'' [text_chunk ''He'']) ''hi'' False
                (init ''S''))))))))
     = [[system_turn ''New'', user_turn ''hi'']] \<and>
   sent (snd (snd (prompt_next (scripted_llama ''r'' [text_chunk ''He'']) ''hi'' False True
     PromptCreated
     (snd (modify_system_prompt ''New''
        (snd (prompt_stream (scripted_llama ''r'' [text_chunk ''He'']) ''hi'' False True
                (init ''S''))))))))
     = [[system_turn ''New'', user_turn ''hi'']]"
  by (simp add: chat_stream_def prompt_stream_def memory_turns_def get_memory_def init_def
                sent_def modify_system_prompt_def list_setitem_def chat_next_def prompt_next_def
                temp_memory_def scripted_llama_def text_chunk_def list_append_def log_call_def
                Let_def)

text \<open>
  C1, as the code has it. \<^verbatim>\<open>chat_stream(p)\<close> returns a generator that has not
  started, in an unchanged world. When that generator is run until it stops, the memory is the memory before the run with the user turn and exactly one
  assistant turn appended, whose content is the concatenation of the fragments yielded.
  When the consumer has called \<^verbatim>\<open>next\<close> at least once, has been yielded a fragment
  each time, and then lets go, the memory is the memory before with the user turn
  appended and no assistant turn. When it never calls \<^verbatim>\<open>next\<close>, nothing has run:
  the world is unchanged. The run does reach its end when the backend's iterator ends
  without raising and every chunk has a \<^verbatim>\<open>delta\<close> entry.
\<close>

theorem chat_stream_commits_after_last_fragment:
  "chat_stream llm p False w = (Inr (Some ChatCreated), w) \<and>
   (chat_drain llm p ps ChatCreated w = (frags, None, g1, w1) \<longrightarrow>
      get_memory w1 = get_memory w \<and>
      memory_turns w1 = memory_turns w @ [user_turn p, assistant_turn (concat frags)]) \<and>
   (chat_pulls llm p ps (Suc n) ChatCreated w = (map Yield toks, g2, w2) \<longrightarrow>
      get_memory w2 = get_memory w \<and>
      memory_turns w2 = memory_turns w @ [user_turn p]) \<and>
   chat_pulls llm p ps 0 ChatCreated w = ([], ChatCreated, w) \<and>
   (create_chat_completion_stream llm (memory_turns w @ [user_turn p]) = Inr (cs, None) \<and>
    (\<forall>c\<in>set cs. chunk_delta c \<noteq> None) \<longrightarrow>
      fst (snd (chat_drain llm p ps ChatCreated w)) = None)"
  using chat_drain_created_commit[of llm p ps w frags g1 w1]
        chat_pulls_created_abandon[of llm p ps n w toks g2 w2]
  by (simp add: memory_turns_def get_memory_def chat_drain_created Let_def
                chat_drain_suspended_outcome chat_stream_def)

theorem chat_stream_commits_after_last_fragment_witness:
  "fst (snd
     (chat_drain (scripted_llama ''r'' [text_chunk ''He'', text_chunk [], text_chunk ''llo''])
        ''hi'' False ChatCreated (init ''S''))) = None \<and>
   memory_turns (snd (snd (snd
     (chat_drain (scripted_llama ''r'' [text_chunk ''He'', text_chunk [], text_chunk ''llo''])
        ''hi'' False ChatCreated (init ''S''))))) =
     [system_turn ''S'', user_turn ''hi'', assistant_turn ''Hello''] \<and>
   memory_turns (snd (snd
     (chat_pulls (scripted_llama ''r'' [text_chunk ''He'', text_chunk [], text_chunk ''llo''])
        ''hi'' False (Suc 0) ChatCreated (init ''S'')))) =
     [system_turn ''S'', user_turn ''hi'']"
proof -
  let ?cs = "[text_chunk ''He'', text_chunk [], text_chunk ''llo'']"
  let ?L = "scripted_llama ''r'' ?cs"
  let ?d = "chat_drain ?L ''hi'' False ChatCreated (init ''S'')"
  let ?k = "chat_pulls ?L ''hi'' False (Suc 0) ChatCreated (init ''S'')"
  have "fst ?d = [''He'', ''llo'']" and "fst (snd ?d) = None"
    by (simp_all add: chat_drain_created chat_drain_suspended_Cons chat_drain_suspended_Nil
                      scripted_llama_def text_chunk_def fragment_def Let_def)
  then have d: "?d = ([''He'', ''llo''], None, fst (snd (snd ?d)), snd (snd (snd ?d)))"
    by (metis prod.collapse)
  have "fst ?k = map Yield [''He'']"
    by (simp add: chat_next_def scripted_llama_def text_chunk_def Let_def)
  then have k: "?k = (map Yield [''He''], fst (snd ?k), snd (snd ?k))"
    by (metis prod.collapse)
  have stream: "create_chat_completion_stream ?L (memory_turns (init ''S'') @ [user_turn ''hi'']) =
                  Inr (?cs, None)"
    by (simp add: scripted_llama_def)
  have deltas: "\<forall>c\<in>set ?cs. chunk_delta c \<noteq> None"
    by (simp add: text_chunk_def)
  note commit = chat_stream_commits_after_last_fragment
         [where llm = ?L and p = "''hi''" and ps = False and w = "init ''S''"
            and frags = "[''He'', ''llo'']" and ?g1.0 = "fst (snd (snd ?d))"
            and ?w1.0 = "snd (snd (snd ?d))" and n = 0 and toks = "[''He'']"
            and ?g2.0 = "fst (snd ?k)" and ?w2.0 = "snd (snd ?k)" and cs = ?cs]
  have exhausted: "fst (snd ?d) = None"
    using commit stream deltas by blast
  have drained: "memory_turns (snd (snd (snd ?d))) =
      memory_turns (init ''S'') @ [user_turn ''hi'', assistant_turn (concat [''He'', ''llo''])]"
    using commit d by blast
  have abandoned: "memory_turns (snd (snd ?k)) = memory_turns (init ''S'') @ [user_turn ''hi'']"
    using commit k by blast
  have "memory_turns (init ''S'') = [system_turn ''S'']"
    by (simp add: memory_turns_def get_memory_def init_def)
  then show ?thesis
    using exhausted drained abandoned by simp
qed

text \<open>
  C1, as the specification words it, fails for the consumer that never pulls: the
  memory is then the memory from before the call, without the user turn.
\<close>

theorem chat_stream_never_pulled:
  "fst (chat_stream (scripted_llama ''r'' [text_chunk ''He'']) ''hi'' False (init ''S'')) =
     Inr (Some ChatCreated) \<and>
   memory_turns (snd (snd
     (chat_pulls (scripted_llama ''r'' [text_chunk ''He'']) ''hi'' False 0 ChatCreated
        (snd (chat_stream (scripted_llama ''r'' [text_chunk ''He'']) ''hi'' False
                (init ''S'')))))) = [system_turn ''S''] \<and>
   memory_turns (snd (snd
     (chat_pulls (scripted_llama ''r'' [text_chunk ''He'']) ''hi'' False 0 ChatCreated
        (snd (chat_stream (scripted_llama ''r'' [text_chunk ''He'']) ''hi'' False
                (init ''S'')))))) \<noteq> memory_turns (init ''S'') @ [user_turn ''hi'']"
  by (simp add: chat_stream_def memory_turns_def get_memory_def init_def)

end
